theory Spec2Isabelle
  imports Main
begin

section \<open>The S3 utility class (S3Util.js) as state-passing functions\<close>

text \<open>
  The class \<open>S3Util\<close> holds one field, \<open>s3\<close>, the client built by the constructor from
  the SDK's \<open>S3Client\<close>. Each of its nine methods builds a parameter object, hands a
  command to \<open>this.s3.send\<close> inside \<open>try\<close>, logs to the console and returns, or in
  \<open>catch\<close> logs \<open>err.message\<close> and rethrows \<open>err\<close>.

  The SDK (\<open>@aws-sdk/client-s3\<close>) is an external dependency and is not part of the
  sources. The model takes it as a parameter: a client is a record of its resolved
  configuration and of its \<open>send\<close> function, and the constructor of the client is an
  argument of the constructor of the class. A rejected promise is the \<open>Inl\<close> of a sum,
  a resolved one the \<open>Inr\<close>.
\<close>

subsection \<open>Values\<close>

text \<open>
  The JavaScript values that flow through the class unread: response properties, object
  bodies, console arguments. An object is an association list of its properties.
\<close>

datatype jsvalue =
    Undefined
  | Null
  | Str string
  | Num int
  | Bytes "char list"
  | Arr "jsvalue list"
  | Obj "(string \<times> jsvalue) list"

type_synonym jsobject = "(string \<times> jsvalue) list"

text \<open>Property access \<open>data.k\<close>: a property the object does not have reads \<open>undefined\<close>.\<close>

definition property :: "jsobject \<Rightarrow> string \<Rightarrow> jsvalue" where
  "property data k = (case map_of data k of None \<Rightarrow> Undefined | Some v \<Rightarrow> v)"

text \<open>
  What the \<open>region\<close> property of a client configuration holds: the SDK's type for it is
  a string or a provider function. \<open>FunctionValue src\<close> is a function whose source text
  is \<open>src\<close>. \<open>ToString\<close> is the conversion a template literal applies to \<open>${...}\<close>: a
  string is itself, a function converts to its source text.
\<close>

datatype config_value = StringValue string | FunctionValue string

fun ToString :: "config_value \<Rightarrow> string" where
  "ToString (StringValue s) = s"
| "ToString (FunctionValue src) = src"

text \<open>The errors the client rejects with: \<open>Error\<close> objects, read only through \<open>err.message\<close>.\<close>

record error =
  name :: string
  message :: string

subsection \<open>The SDK's client, as a parameter\<close>

record credentials =
  accessKeyId :: string
  secretAccessKey :: string

record S3ClientConfig =
  region :: config_value
  credentials :: credentials

text \<open>A command is built from its parameter object: \<open>new PutObjectCommand(params)\<close>.\<close>

datatype command =
    CreateBucketCommand jsobject
  | ListBucketsCommand jsobject
  | DeleteBucketCommand jsobject
  | PutObjectCommand jsobject
  | ListObjectsV2Command jsobject
  | GetObjectCommand jsobject
  | DeleteObjectCommand jsobject
  | PutObjectAclCommand jsobject

text \<open>
  \<open>'w\<close> is everything behind the client: the storage service and the network. \<open>send\<close>
  takes a command and that world, and resolves with a response object or rejects with an
  error, in a new world.
\<close>

record 'w S3Client =
  config :: S3ClientConfig
  send :: "command \<Rightarrow> 'w \<Rightarrow> (error + jsobject) \<times> 'w"

subsection \<open>The class and the state its methods run in\<close>

record 'w S3Util =
  s3 :: "'w S3Client"

text \<open>
  \<open>constructor(region, accessKeyId, secretAccessKey)\<close>; \<open>S3Client\<close> is the SDK's
  constructor. The arguments are primed: the plain names are the record fields.
\<close>

definition new_S3Util ::
  "(S3ClientConfig \<Rightarrow> 'w S3Client) \<Rightarrow> string \<Rightarrow> string \<Rightarrow> string \<Rightarrow> 'w S3Util" where
  "new_S3Util S3Client region' accessKeyId' secretAccessKey' =
     \<lparr> s3 = S3Client
         \<lparr> region = StringValue region',
           credentials = \<lparr> accessKeyId = accessKeyId', secretAccessKey = secretAccessKey' \<rparr> \<rparr> \<rparr>"

datatype stream = Log | Error

type_synonym trace = "stream \<times> jsvalue list"

text \<open>
  The state a method runs in: the object \<open>this\<close> (\<open>facade\<close>), the world behind the
  client (\<open>remote\<close>), the commands handed to \<open>this.s3.send\<close> so far (\<open>requests\<close>) and
  the calls of \<open>console.log\<close> and \<open>console.error\<close> so far, each with its arguments.
\<close>

record 'w state =
  facade :: "'w S3Util"
  remote :: 'w
  requests :: "command list"
  console :: "trace list"

definition console_log :: "jsvalue list \<Rightarrow> 'w state \<Rightarrow> 'w state" where
  "console_log args st = st\<lparr>console := console st @ [(Log, args)]\<rparr>"

definition console_error :: "jsvalue list \<Rightarrow> 'w state \<Rightarrow> 'w state" where
  "console_error args st = st\<lparr>console := console st @ [(Error, args)]\<rparr>"

text \<open>\<open>await this.s3.send(cmd)\<close>: the command is recorded and the client run on the world.\<close>

definition s3_send :: "command \<Rightarrow> 'w state \<Rightarrow> (error + jsobject) \<times> 'w state" where
  "s3_send cmd st =
     (case send (s3 (facade st)) cmd (remote st) of
        (r, w) \<Rightarrow> (r, st\<lparr>remote := w, requests := requests st @ [cmd]\<rparr>))"

subsection \<open>The methods\<close>

definition createBucket :: "string \<Rightarrow> 'w state \<Rightarrow> (error + unit) \<times> 'w state" where
  "createBucket bucketName st =
     (let params = [(''Bucket'', Str bucketName)] in
      case s3_send (CreateBucketCommand params) st of
        (Inr _, st') \<Rightarrow>
          (Inr (), console_log [Str (''Bucket \"'' @ bucketName @ ''\" created successfully.'')] st')
      | (Inl err, st') \<Rightarrow>
          (Inl err,
           console_error [Str (''Error creating bucket \"'' @ bucketName @ ''\":''), Str (message err)] st'))"

definition listBuckets :: "'w state \<Rightarrow> (error + jsvalue) \<times> 'w state" where
  "listBuckets st =
     (case s3_send (ListBucketsCommand []) st of
        (Inr data, st') \<Rightarrow>
          (Inr (property data ''Buckets''), console_log [Str ''Buckets:'', property data ''Buckets''] st')
      | (Inl err, st') \<Rightarrow>
          (Inl err, console_error [Str ''Error listing buckets:'', Str (message err)] st'))"

definition deleteBucket :: "string \<Rightarrow> 'w state \<Rightarrow> (error + unit) \<times> 'w state" where
  "deleteBucket bucketName st =
     (let params = [(''Bucket'', Str bucketName)] in
      case s3_send (DeleteBucketCommand params) st of
        (Inr _, st') \<Rightarrow>
          (Inr (), console_log [Str (''Bucket \"'' @ bucketName @ ''\" deleted successfully.'')] st')
      | (Inl err, st') \<Rightarrow>
          (Inl err,
           console_error [Str (''Error deleting bucket \"'' @ bucketName @ ''\":''), Str (message err)] st'))"

definition uploadObject :: "string \<Rightarrow> string \<Rightarrow> jsvalue \<Rightarrow> 'w state \<Rightarrow> (error + unit) \<times> 'w state" where
  "uploadObject bucketName key body st =
     (let params =
        [(''Bucket'', Str bucketName), (''Key'', Str key), (''Body'', body),
         (''ACL'', Str ''public-read'')] in
      case s3_send (PutObjectCommand params) st of
        (Inr _, st') \<Rightarrow>
          (Inr (),
           console_log
             [Str (''Object \"'' @ key @ ''\" uploaded to bucket \"'' @ bucketName @ ''\" successfully.'')] st')
      | (Inl err, st') \<Rightarrow>
          (Inl err,
           console_error [Str (''Error uploading object \"'' @ key @ ''\":''), Str (message err)] st'))"

text \<open>
  \<open>getPublicUrl\<close> reads \<open>this.s3.config.region\<close> and calls nothing else. Its \<open>try\<close>
  body is a template literal over two strings and a \<open>config_value\<close>, and a call of
  \<open>console.log\<close>: nothing in it throws, so the \<open>catch\<close> branch has no input.
\<close>

definition getPublicUrl :: "string \<Rightarrow> string \<Rightarrow> 'w state \<Rightarrow> (error + string) \<times> 'w state" where
  "getPublicUrl bucketName key st =
     (let publicUrl =
        ''https://'' @ bucketName @ ''.s3.'' @ ToString (region (config (s3 (facade st))))
          @ ''.amazonaws.com/'' @ key in
      (Inr publicUrl, console_log [Str (''Public URL: '' @ publicUrl)] st))"

definition listObjects :: "string \<Rightarrow> 'w state \<Rightarrow> (error + jsvalue) \<times> 'w state" where
  "listObjects bucketName st =
     (let params = [(''Bucket'', Str bucketName)] in
      case s3_send (ListObjectsV2Command params) st of
        (Inr data, st') \<Rightarrow>
          (Inr (property data ''Contents''),
           console_log [Str (''Objects in bucket \"'' @ bucketName @ ''\":''), property data ''Contents''] st')
      | (Inl err, st') \<Rightarrow>
          (Inl err,
           console_error
             [Str (''Error listing objects in bucket \"'' @ bucketName @ ''\":''), Str (message err)] st'))"

definition downloadObject :: "string \<Rightarrow> string \<Rightarrow> 'w state \<Rightarrow> (error + jsvalue) \<times> 'w state" where
  "downloadObject bucketName key st =
     (let params = [(''Bucket'', Str bucketName), (''Key'', Str key)] in
      case s3_send (GetObjectCommand params) st of
        (Inr data, st') \<Rightarrow>
          (Inr (property data ''Body''),
           console_log
             [Str (''Object \"'' @ key @ ''\" downloaded from bucket \"'' @ bucketName @ ''\" successfully.'')] st')
      | (Inl err, st') \<Rightarrow>
          (Inl err,
           console_error [Str (''Error downloading object \"'' @ key @ ''\":''), Str (message err)] st'))"

definition deleteObject :: "string \<Rightarrow> string \<Rightarrow> 'w state \<Rightarrow> (error + unit) \<times> 'w state" where
  "deleteObject bucketName key st =
     (let params = [(''Bucket'', Str bucketName), (''Key'', Str key)] in
      case s3_send (DeleteObjectCommand params) st of
        (Inr _, st') \<Rightarrow>
          (Inr (),
           console_log
             [Str (''Object \"'' @ key @ ''\" deleted from bucket \"'' @ bucketName @ ''\" successfully.'')] st')
      | (Inl err, st') \<Rightarrow>
          (Inl err,
           console_error [Str (''Error deleting object \"'' @ key @ ''\":''), Str (message err)] st'))"

definition makeObjectPublic :: "string \<Rightarrow> string \<Rightarrow> 'w state \<Rightarrow> (error + unit) \<times> 'w state" where
  "makeObjectPublic bucketName key st =
     (let params = [(''Bucket'', Str bucketName), (''Key'', Str key), (''ACL'', Str ''public-read'')] in
      case s3_send (PutObjectAclCommand params) st of
        (Inr _, st') \<Rightarrow>
          (Inr (),
           console_log [Str (''Object \"'' @ key @ ''\" in bucket \"'' @ bucketName @ ''\" is now public.'')] st')
      | (Inl err, st') \<Rightarrow>
          (Inl err,
           console_error [Str (''Error making object \"'' @ key @ ''\" public:''), Str (message err)] st'))"

subsection \<open>What a call of the client did\<close>

text \<open>
  \<open>rejects st cmd err w\<close>: in the state \<open>st\<close> the client rejects \<open>cmd\<close> with \<open>err\<close>, leaving
  the world \<open>w\<close>; \<open>resolves\<close> likewise for a response. \<open>sent cmd w st\<close> is the state after
  the call.
\<close>

definition rejects :: "'w state \<Rightarrow> command \<Rightarrow> error \<Rightarrow> 'w \<Rightarrow> bool" where
  "rejects st cmd err w = (send (s3 (facade st)) cmd (remote st) = (Inl err, w))"

definition resolves :: "'w state \<Rightarrow> command \<Rightarrow> jsobject \<Rightarrow> 'w \<Rightarrow> bool" where
  "resolves st cmd data w = (send (s3 (facade st)) cmd (remote st) = (Inr data, w))"

definition sent :: "command \<Rightarrow> 'w \<Rightarrow> 'w state \<Rightarrow> 'w state" where
  "sent cmd w st = st\<lparr>remote := w, requests := requests st @ [cmd]\<rparr>"

text \<open>A sequence is a JavaScript array.\<close>

primrec is_sequence :: "jsvalue \<Rightarrow> bool" where
  "is_sequence Undefined = False"
| "is_sequence Null = False"
| "is_sequence (Str s) = False"
| "is_sequence (Num n) = False"
| "is_sequence (Bytes bs) = False"
| "is_sequence (Arr xs) = True"
| "is_sequence (Obj ps) = False"


text \<open>
  Two states are \<open>low_equal\<close> when they agree on everything a method can observe apart
  from the credentials the client holds: what \<open>send\<close> answers, the region property, the
  world, the commands sent and the console so far.
\<close>

definition low_equal :: "'w state \<Rightarrow> 'w state \<Rightarrow> bool" where
  "low_equal st1 st2 =
     (send (s3 (facade st1)) = send (s3 (facade st2)) \<and>
      region (config (s3 (facade st1))) = region (config (s3 (facade st2))) \<and>
      remote st1 = remote st2 \<and>
      requests st1 = requests st2 \<and>
      console st1 = console st2)"

subsection \<open>Clients and states for the examples\<close>

definition initial :: "'w S3Util \<Rightarrow> 'w \<Rightarrow> 'w state" where
  "initial f w = \<lparr> facade = f, remote = w, requests = [], console = [] \<rparr>"

text \<open>A client that keeps the configuration it is given, over a given \<open>send\<close>.\<close>

definition plain_client ::
  "(command \<Rightarrow> 'w \<Rightarrow> (error + jsobject) \<times> 'w) \<Rightarrow> S3ClientConfig \<Rightarrow> 'w S3Client" where
  "plain_client transport cfg = \<lparr> config = cfg, send = transport \<rparr>"

text \<open>
  A client that resolves the region it is given into a provider function, which is what
  version 3 of the SDK (the dependency the file header names) keeps in \<open>config.region\<close>.
  The source text stands for that of the SDK's function.
\<close>

definition provider_client ::
  "(command \<Rightarrow> 'w \<Rightarrow> (error + jsobject) \<times> 'w) \<Rightarrow> S3ClientConfig \<Rightarrow> 'w S3Client" where
  "provider_client transport cfg =
     \<lparr> config = cfg\<lparr>region := FunctionValue ''async () => region''\<rparr>, send = transport \<rparr>"

definition rejecting :: "error \<Rightarrow> command \<Rightarrow> 'w \<Rightarrow> (error + jsobject) \<times> 'w" where
  "rejecting err cmd w = (Inl err, w)"

definition resolving :: "jsobject \<Rightarrow> command \<Rightarrow> 'w \<Rightarrow> (error + jsobject) \<times> 'w" where
  "resolving data cmd w = (Inr data, w)"

definition NoSuchKey :: error where
  "NoSuchKey = \<lparr> name = ''NoSuchKey'', message = ''The specified key does not exist.'' \<rparr>"

definition AccessDenied :: error where
  "AccessDenied = \<lparr> name = ''AccessDenied'', message = ''Access Denied'' \<rparr>"

text \<open>
  A store in memory: \<open>PutObject\<close> keeps the body under the bucket and key, \<open>GetObject\<close>
  and \<open>DeleteObject\<close> reject with \<open>NoSuchKey\<close> when nothing is kept there.
\<close>

type_synonym store = "((jsvalue \<times> jsvalue) \<times> jsvalue) list"

fun memory_store :: "command \<Rightarrow> store \<Rightarrow> (error + jsobject) \<times> store" where
  "memory_store (PutObjectCommand params) w =
     (Inr [], ((property params ''Bucket'', property params ''Key''), property params ''Body'') # w)"
| "memory_store (GetObjectCommand params) w =
     (case map_of w (property params ''Bucket'', property params ''Key'') of
        Some body \<Rightarrow> (Inr [(''Body'', body)], w)
      | None \<Rightarrow> (Inl NoSuchKey, w))"
| "memory_store (DeleteObjectCommand params) w =
     (case map_of w (property params ''Bucket'', property params ''Key'') of
        Some body \<Rightarrow>
          (Inr [], filter (\<lambda>e. fst e \<noteq> (property params ''Bucket'', property params ''Key'')) w)
      | None \<Rightarrow> (Inl NoSuchKey, w))"
| "memory_store cmd w = (Inr [], w)"

text \<open>A facade whose client rejects every command with \<open>AccessDenied\<close>.\<close>

definition denied :: "unit state" where
  "denied =
     initial (new_S3Util (plain_client (rejecting AccessDenied)) ''us-west-2'' ''AKIA'' ''secret'') ()"

text \<open>Two facades over the store in memory that differ in the secret only.\<close>

definition empty_store :: "store state" where
  "empty_store = initial (new_S3Util (plain_client memory_store) ''us-west-2'' ''AKIA'' ''secret'') []"

definition other_secret :: "store state" where
  "other_secret =
     initial (new_S3Util (plain_client memory_store) ''us-west-2'' ''AKIA'' ''another secret'') []"

text \<open>
  A facade whose client answers every command as the service answers \<open>ListObjectsV2\<close> on
  a bucket without objects: a response with no \<open>Contents\<close> property.
\<close>

definition empty_bucket :: "unit state" where
  "empty_bucket =
     initial
       (new_S3Util (plain_client (resolving [(''Name'', Str ''photos''), (''KeyCount'', Num 0)]))
          ''us-west-2'' ''AKIA'' ''secret'') ()"

text \<open>A facade whose client answers with one bucket and one object.\<close>

definition listing :: "unit state" where
  "listing =
     initial
       (new_S3Util
          (plain_client
             (resolving
                [(''Buckets'',
                  Arr [Obj [(''Name'', Str ''photos''), (''CreationDate'', Str ''2024-08-14T10:00:00.000Z'')]]),
                 (''Contents'',
                  Arr [Obj [(''Key'', Str ''cat.png''), (''Size'', Num 4),
                            (''LastModified'', Str ''2024-08-14T10:05:00.000Z'')]])]))
          ''us-west-2'' ''AKIA'' ''secret'') ()"

text \<open>The facade of the usage example, over a client that keeps the region as a provider.\<close>

definition v3_facade :: "unit state" where
  "v3_facade =
     initial (new_S3Util (provider_client (resolving [])) ''us-west-2'' ''AKIA'' ''secret'') ()"



section \<open>Properties\<close>

lemmas method_defs =
  createBucket_def listBuckets_def deleteBucket_def uploadObject_def getPublicUrl_def
  listObjects_def downloadObject_def deleteObject_def makeObjectPublic_def

lemmas effect_defs = s3_send_def console_log_def console_error_def Let_def

lemmas fixture_defs =
  initial_def new_S3Util_def plain_client_def provider_client_def rejecting_def resolving_def
  NoSuchKey_def AccessDenied_def

lemma s3_send_rejects: "rejects st cmd err w \<Longrightarrow> s3_send cmd st = (Inl err, sent cmd w st)"
  by (simp add: rejects_def s3_send_def sent_def)

lemma s3_send_resolves: "resolves st cmd data w \<Longrightarrow> s3_send cmd st = (Inr data, sent cmd w st)"
  by (simp add: resolves_def s3_send_def sent_def)


subsection \<open>Uploads are public\<close>

text \<open>
  C2: for every bucket name, key and payload, \<open>uploadObject\<close> applies the client's \<open>send\<close>
  once, to a \<open>PutObjectCommand\<close> whose parameters carry \<open>ACL: "public-read"\<close> beside the
  bucket, the key and the body: the world it leaves is the one that \<open>send\<close> leaves on that
  command, it resolves when that \<open>send\<close> resolves and rejects with its error when it
  rejects, and the command is the only one recorded. The method has no argument that
  could change the policy.
\<close>

theorem uploadObject_public_read:
  "remote (snd (uploadObject bucketName key body st)) =
     snd (send (s3 (facade st))
            (PutObjectCommand
               [(''Bucket'', Str bucketName), (''Key'', Str key), (''Body'', body),
                (''ACL'', Str ''public-read'')])
            (remote st)) \<and>
   fst (uploadObject bucketName key body st) =
     (case fst (send (s3 (facade st))
                  (PutObjectCommand
                     [(''Bucket'', Str bucketName), (''Key'', Str key), (''Body'', body),
                      (''ACL'', Str ''public-read'')])
                  (remote st)) of
        Inl err \<Rightarrow> Inl err
      | Inr data \<Rightarrow> Inr ()) \<and>
   requests (snd (uploadObject bucketName key body st)) =
     requests st @
       [PutObjectCommand
          [(''Bucket'', Str bucketName), (''Key'', Str key), (''Body'', body),
           (''ACL'', Str ''public-read'')]] \<and>
   property
     [(''Bucket'', Str bucketName), (''Key'', Str key), (''Body'', body),
      (''ACL'', Str ''public-read'')] ''ACL'' = Str ''public-read''"
proof -
  let ?put = "PutObjectCommand
      [(''Bucket'', Str bucketName), (''Key'', Str key), (''Body'', body), (''ACL'', Str ''public-read'')]"
  obtain r w where answer: "send (s3 (facade st)) ?put (remote st) = (r, w)"
    by (cases "send (s3 (facade st)) ?put (remote st)")
  then have call: "s3_send ?put st = (r, sent ?put w st)"
    by (simp add: s3_send_def sent_def)
  show ?thesis
  proof (cases r)
    case (Inl err)
    with call have "uploadObject bucketName key body st =
        (Inl err,
         console_error [Str (''Error uploading object \"'' @ key @ ''\":''), Str (message err)]
           (sent ?put w st))"
      by (simp add: uploadObject_def)
    with answer Inl show ?thesis
      by (simp add: console_error_def sent_def property_def)
  next
    case (Inr data)
    with call have "uploadObject bucketName key body st =
        (Inr (),
         console_log
           [Str (''Object \"'' @ key @ ''\" uploaded to bucket \"'' @ bucketName @ ''\" successfully.'')]
           (sent ?put w st))"
      by (simp add: uploadObject_def)
    with answer Inr show ?thesis
      by (simp add: console_log_def sent_def property_def)
  qed
qed

subsection \<open>Failures are logged and rethrown\<close>

text \<open>
  C3: whenever the client rejects the command of a method with an error \<open>err\<close>, the method
  calls \<open>console.error\<close> once, with its message prefix and \<open>err.message\<close>, and rejects
  with \<open>err\<close> itself; nothing else is logged and nothing is retried (one command was
  sent). \<open>getPublicUrl\<close> sends no command, so no failure of the client reaches it.
\<close>

theorem failure_traced_and_rethrown:
  "(rejects st (CreateBucketCommand [(''Bucket'', Str bucketName)]) err w \<longrightarrow>
      createBucket bucketName st =
        (Inl err,
         console_error [Str (''Error creating bucket \"'' @ bucketName @ ''\":''), Str (message err)]
           (sent (CreateBucketCommand [(''Bucket'', Str bucketName)]) w st))) \<and>
   (rejects st (ListBucketsCommand []) err w \<longrightarrow>
      listBuckets st =
        (Inl err,
         console_error [Str ''Error listing buckets:'', Str (message err)]
           (sent (ListBucketsCommand []) w st))) \<and>
   (rejects st (DeleteBucketCommand [(''Bucket'', Str bucketName)]) err w \<longrightarrow>
      deleteBucket bucketName st =
        (Inl err,
         console_error [Str (''Error deleting bucket \"'' @ bucketName @ ''\":''), Str (message err)]
           (sent (DeleteBucketCommand [(''Bucket'', Str bucketName)]) w st))) \<and>
   (rejects st
        (PutObjectCommand
           [(''Bucket'', Str bucketName), (''Key'', Str key), (''Body'', body),
            (''ACL'', Str ''public-read'')]) err w \<longrightarrow>
      uploadObject bucketName key body st =
        (Inl err,
         console_error [Str (''Error uploading object \"'' @ key @ ''\":''), Str (message err)]
           (sent
              (PutObjectCommand
                 [(''Bucket'', Str bucketName), (''Key'', Str key), (''Body'', body),
                  (''ACL'', Str ''public-read'')]) w st))) \<and>
   (rejects st (ListObjectsV2Command [(''Bucket'', Str bucketName)]) err w \<longrightarrow>
      listObjects bucketName st =
        (Inl err,
         console_error
           [Str (''Error listing objects in bucket \"'' @ bucketName @ ''\":''), Str (message err)]
           (sent (ListObjectsV2Command [(''Bucket'', Str bucketName)]) w st))) \<and>
   (rejects st (GetObjectCommand [(''Bucket'', Str bucketName), (''Key'', Str key)]) err w \<longrightarrow>
      downloadObject bucketName key st =
        (Inl err,
         console_error [Str (''Error downloading object \"'' @ key @ ''\":''), Str (message err)]
           (sent (GetObjectCommand [(''Bucket'', Str bucketName), (''Key'', Str key)]) w st))) \<and>
   (rejects st (DeleteObjectCommand [(''Bucket'', Str bucketName), (''Key'', Str key)]) err w \<longrightarrow>
      deleteObject bucketName key st =
        (Inl err,
         console_error [Str (''Error deleting object \"'' @ key @ ''\":''), Str (message err)]
           (sent (DeleteObjectCommand [(''Bucket'', Str bucketName), (''Key'', Str key)]) w st))) \<and>
   (rejects st
        (PutObjectAclCommand
           [(''Bucket'', Str bucketName), (''Key'', Str key), (''ACL'', Str ''public-read'')]) err w \<longrightarrow>
      makeObjectPublic bucketName key st =
        (Inl err,
         console_error [Str (''Error making object \"'' @ key @ ''\" public:''), Str (message err)]
           (sent
              (PutObjectAclCommand
                 [(''Bucket'', Str bucketName), (''Key'', Str key), (''ACL'', Str ''public-read'')])
              w st)))"
  by (simp add: method_defs Let_def s3_send_rejects)

text \<open>On a client that rejects every command with \<open>AccessDenied\<close>.\<close>

theorem failure_traced_and_rethrown_witness:
  "createBucket ''b'' denied =
     (Inl AccessDenied,
      denied\<lparr>requests := [CreateBucketCommand [(''Bucket'', Str ''b'')]],
        console := [(Error, [Str ''Error creating bucket \"b\":'', Str ''Access Denied''])]\<rparr>) \<and>
   listBuckets denied =
     (Inl AccessDenied,
      denied\<lparr>requests := [ListBucketsCommand []],
        console := [(Error, [Str ''Error listing buckets:'', Str ''Access Denied''])]\<rparr>) \<and>
   deleteBucket ''b'' denied =
     (Inl AccessDenied,
      denied\<lparr>requests := [DeleteBucketCommand [(''Bucket'', Str ''b'')]],
        console := [(Error, [Str ''Error deleting bucket \"b\":'', Str ''Access Denied''])]\<rparr>) \<and>
   uploadObject ''b'' ''k'' (Bytes ''hi'') denied =
     (Inl AccessDenied,
      denied\<lparr>requests :=
          [PutObjectCommand
             [(''Bucket'', Str ''b''), (''Key'', Str ''k''), (''Body'', Bytes ''hi''),
              (''ACL'', Str ''public-read'')]],
        console := [(Error, [Str ''Error uploading object \"k\":'', Str ''Access Denied''])]\<rparr>) \<and>
   listObjects ''b'' denied =
     (Inl AccessDenied,
      denied\<lparr>requests := [ListObjectsV2Command [(''Bucket'', Str ''b'')]],
        console := [(Error, [Str ''Error listing objects in bucket \"b\":'', Str ''Access Denied''])]\<rparr>) \<and>
   downloadObject ''b'' ''k'' denied =
     (Inl AccessDenied,
      denied\<lparr>requests := [GetObjectCommand [(''Bucket'', Str ''b''), (''Key'', Str ''k'')]],
        console := [(Error, [Str ''Error downloading object \"k\":'', Str ''Access Denied''])]\<rparr>) \<and>
   deleteObject ''b'' ''k'' denied =
     (Inl AccessDenied,
      denied\<lparr>requests := [DeleteObjectCommand [(''Bucket'', Str ''b''), (''Key'', Str ''k'')]],
        console := [(Error, [Str ''Error deleting object \"k\":'', Str ''Access Denied''])]\<rparr>) \<and>
   makeObjectPublic ''b'' ''k'' denied =
     (Inl AccessDenied,
      denied\<lparr>requests :=
          [PutObjectAclCommand [(''Bucket'', Str ''b''), (''Key'', Str ''k''), (''ACL'', Str ''public-read'')]],
        console := [(Error, [Str ''Error making object \"k\" public:'', Str ''Access Denied''])]\<rparr>)"
  using failure_traced_and_rethrown
    [where st = denied and err = AccessDenied and w = "()" and bucketName = "''b''"
       and key = "''k''" and body = "Bytes ''hi''"]
  by (simp add: rejects_def console_error_def sent_def denied_def fixture_defs)

subsection \<open>The facade has no state of its own to change\<close>

text \<open>
  C9: the object has one field, \<open>s3\<close>, set by the constructor, and each of the nine
  methods leaves the object as it found it: a call changes the world behind the client,
  the record of commands and the console, never the facade.
\<close>

theorem facade_unchanged:
  "facade (snd (createBucket bucketName st)) = facade st \<and>
   facade (snd (listBuckets st)) = facade st \<and>
   facade (snd (deleteBucket bucketName st)) = facade st \<and>
   facade (snd (uploadObject bucketName key body st)) = facade st \<and>
   facade (snd (getPublicUrl bucketName key st)) = facade st \<and>
   facade (snd (listObjects bucketName st)) = facade st \<and>
   facade (snd (downloadObject bucketName key st)) = facade st \<and>
   facade (snd (deleteObject bucketName key st)) = facade st \<and>
   facade (snd (makeObjectPublic bucketName key st)) = facade st \<and>
   facade st = \<lparr> s3 = s3 (facade st) \<rparr>"
  by (simp add: method_defs effect_defs split: prod.splits sum.splits)

subsection \<open>Deleting an object that is not there\<close>

text \<open>
  C6: when the client rejects the \<open>DeleteObjectCommand\<close> for a bucket and key (as it does
  when the provider reports that the object is not found), \<open>deleteObject\<close> rejects with
  that error: it does not resolve, the facade is as before and can be called again, and
  the console has one more \<open>console.error\<close> line with the error's message.
\<close>

theorem deleteObject_failure_surfaced:
  assumes "rejects st (DeleteObjectCommand [(''Bucket'', Str bucketName), (''Key'', Str key)]) err w"
  shows "fst (deleteObject bucketName key st) = Inl err \<and>
         fst (deleteObject bucketName key st) \<noteq> Inr () \<and>
         facade (snd (deleteObject bucketName key st)) = facade st \<and>
         console (snd (deleteObject bucketName key st)) =
           console st @ [(Error, [Str (''Error deleting object \"'' @ key @ ''\":''), Str (message err)])]"
proof -
  let ?cmd = "DeleteObjectCommand [(''Bucket'', Str bucketName), (''Key'', Str key)]"
  have "s3_send ?cmd st = (Inl err, sent ?cmd w st)"
    using assms by (rule s3_send_rejects)
  then have "deleteObject bucketName key st =
      (Inl err,
       console_error [Str (''Error deleting object \"'' @ key @ ''\":''), Str (message err)]
         (sent ?cmd w st))"
    by (simp add: deleteObject_def)
  then show ?thesis
    by (simp add: console_error_def sent_def)
qed

text \<open>On the store in memory, which holds nothing and reports \<open>NoSuchKey\<close>.\<close>

theorem deleteObject_failure_surfaced_witness:
  "rejects empty_store
     (DeleteObjectCommand [(''Bucket'', Str ''photos''), (''Key'', Str ''missing.txt'')]) NoSuchKey [] \<and>
   fst (deleteObject ''photos'' ''missing.txt'' empty_store) = Inl NoSuchKey \<and>
   console (snd (deleteObject ''photos'' ''missing.txt'' empty_store)) =
     [(Error, [Str ''Error deleting object \"missing.txt\":'', Str ''The specified key does not exist.''])]"
proof -
  have r: "rejects empty_store
      (DeleteObjectCommand [(''Bucket'', Str ''photos''), (''Key'', Str ''missing.txt'')]) NoSuchKey []"
    by (simp add: rejects_def empty_store_def initial_def new_S3Util_def plain_client_def property_def)
  show ?thesis
    using r deleteObject_failure_surfaced [OF r]
    by (simp add: empty_store_def initial_def NoSuchKey_def)
qed

subsection \<open>Upload, then download\<close>




subsection \<open>What the listing methods return\<close>

text \<open>
  C5, as amended: when the client resolves, \<open>listBuckets\<close> returns the \<open>Buckets\<close> property
  of the response and \<open>listObjects\<close> its \<open>Contents\<close> property, as they are: the
  provider's sequence of descriptors when the response has the property, and
  \<open>undefined\<close> when it has not. Neither method puts an empty sequence in its place.
\<close>

theorem list_results_are_response_properties:
  "(resolves st (ListBucketsCommand []) data w \<longrightarrow>
      fst (listBuckets st) = Inr (property data ''Buckets'')) \<and>
   (resolves st (ListObjectsV2Command [(''Bucket'', Str bucketName)]) data w \<longrightarrow>
      fst (listObjects bucketName st) = Inr (property data ''Contents'')) \<and>
   (resolves st (ListBucketsCommand []) data w \<and> map_of data ''Buckets'' = None \<longrightarrow>
      fst (listBuckets st) = Inr Undefined) \<and>
   (resolves st (ListObjectsV2Command [(''Bucket'', Str bucketName)]) data w \<and>
      map_of data ''Contents'' = None \<longrightarrow>
      fst (listObjects bucketName st) = Inr Undefined)"
proof -
  have buckets: "fst (listBuckets st) = Inr (property data ''Buckets'')"
    if "resolves st (ListBucketsCommand []) data w"
    using s3_send_resolves [OF that] by (simp add: listBuckets_def)
  have contents: "fst (listObjects bucketName st) = Inr (property data ''Contents'')"
    if "resolves st (ListObjectsV2Command [(''Bucket'', Str bucketName)]) data w"
    using s3_send_resolves [OF that] by (simp add: listObjects_def)
  have absent: "property data k = Undefined" if "map_of data k = None" for k
    using that by (simp add: property_def)
  from buckets contents absent show ?thesis
    by simp
qed

text \<open>
  On a response with one bucket and one object, and on the response for a bucket without
  objects.
\<close>

theorem list_results_are_response_properties_witness:
  "resolves listing (ListBucketsCommand [])
     [(''Buckets'',
       Arr [Obj [(''Name'', Str ''photos''), (''CreationDate'', Str ''2024-08-14T10:00:00.000Z'')]]),
      (''Contents'',
       Arr [Obj [(''Key'', Str ''cat.png''), (''Size'', Num 4),
                 (''LastModified'', Str ''2024-08-14T10:05:00.000Z'')]])] () \<and>
   fst (listBuckets listing) =
     Inr (Arr [Obj [(''Name'', Str ''photos''), (''CreationDate'', Str ''2024-08-14T10:00:00.000Z'')]]) \<and>
   fst (listObjects ''photos'' listing) =
     Inr (Arr [Obj [(''Key'', Str ''cat.png''), (''Size'', Num 4),
                    (''LastModified'', Str ''2024-08-14T10:05:00.000Z'')]]) \<and>
   resolves empty_bucket (ListObjectsV2Command [(''Bucket'', Str ''photos'')])
     [(''Name'', Str ''photos''), (''KeyCount'', Num 0)] () \<and>
   fst (listBuckets empty_bucket) = Inr Undefined \<and>
   fst (listObjects ''photos'' empty_bucket) = Inr Undefined"
  using
    list_results_are_response_properties
      [where st = listing and w = "()" and bucketName = "''photos''" and data =
        "[(''Buckets'',
           Arr [Obj [(''Name'', Str ''photos''), (''CreationDate'', Str ''2024-08-14T10:00:00.000Z'')]]),
          (''Contents'',
           Arr [Obj [(''Key'', Str ''cat.png''), (''Size'', Num 4),
                     (''LastModified'', Str ''2024-08-14T10:05:00.000Z'')]])]"]
    list_results_are_response_properties
      [where st = empty_bucket and w = "()" and bucketName = "''photos''" and data =
        "[(''Name'', Str ''photos''), (''KeyCount'', Num 0)]"]
  by (simp add: resolves_def listing_def empty_bucket_def fixture_defs property_def)

text \<open>
  C5 as stated fails: on a response without \<open>Contents\<close>, \<open>listObjects\<close> resolves, and with
  \<open>undefined\<close>, which is not a sequence.
\<close>

theorem listObjects_empty_bucket_counterexample:
  "fst (listObjects ''photos'' empty_bucket) = Inr Undefined \<and> \<not> is_sequence Undefined"
  by (simp add: listObjects_def effect_defs empty_bucket_def fixture_defs property_def)

subsection \<open>The secret does not reach the console\<close>

lemma low_equal_s3_send:
  assumes "low_equal st1 st2"
  shows "fst (s3_send cmd st1) = fst (s3_send cmd st2) \<and>
         low_equal (snd (s3_send cmd st1)) (snd (s3_send cmd st2))"
  using assms by (simp add: low_equal_def s3_send_def split: prod.splits)

lemma low_equal_console_log:
  "low_equal st1 st2 \<Longrightarrow> low_equal (console_log args st1) (console_log args st2)"
  by (simp add: low_equal_def console_log_def)

lemma low_equal_console_error:
  "low_equal st1 st2 \<Longrightarrow> low_equal (console_error args st1) (console_error args st2)"
  by (simp add: low_equal_def console_error_def)

lemma low_equal_console: "low_equal st1 st2 \<Longrightarrow> console st1 = console st2"
  by (simp add: low_equal_def)

lemma low_equal_region:
  "low_equal st1 st2 \<Longrightarrow> region (config (s3 (facade st1))) = region (config (s3 (facade st2)))"
  by (simp add: low_equal_def)

lemma low_equal_createBucket:
  assumes "low_equal st1 st2"
  shows "fst (createBucket bucketName st1) = fst (createBucket bucketName st2) \<and>
         low_equal (snd (createBucket bucketName st1)) (snd (createBucket bucketName st2))"
  using low_equal_s3_send [OF assms, of "CreateBucketCommand [(''Bucket'', Str bucketName)]"]
  by (auto simp: createBucket_def Let_def low_equal_console_log low_equal_console_error
      split: prod.splits sum.splits)

lemma low_equal_listBuckets:
  assumes "low_equal st1 st2"
  shows "fst (listBuckets st1) = fst (listBuckets st2) \<and>
         low_equal (snd (listBuckets st1)) (snd (listBuckets st2))"
  using low_equal_s3_send [OF assms, of "ListBucketsCommand []"]
  by (auto simp: listBuckets_def Let_def low_equal_console_log low_equal_console_error
      split: prod.splits sum.splits)

lemma low_equal_deleteBucket:
  assumes "low_equal st1 st2"
  shows "fst (deleteBucket bucketName st1) = fst (deleteBucket bucketName st2) \<and>
         low_equal (snd (deleteBucket bucketName st1)) (snd (deleteBucket bucketName st2))"
  using low_equal_s3_send [OF assms, of "DeleteBucketCommand [(''Bucket'', Str bucketName)]"]
  by (auto simp: deleteBucket_def Let_def low_equal_console_log low_equal_console_error
      split: prod.splits sum.splits)

lemma low_equal_uploadObject:
  assumes "low_equal st1 st2"
  shows "fst (uploadObject bucketName key body st1) = fst (uploadObject bucketName key body st2) \<and>
         low_equal (snd (uploadObject bucketName key body st1)) (snd (uploadObject bucketName key body st2))"
  using low_equal_s3_send [OF assms, of "PutObjectCommand
      [(''Bucket'', Str bucketName), (''Key'', Str key), (''Body'', body),
       (''ACL'', Str ''public-read'')]"]
  by (auto simp: uploadObject_def Let_def low_equal_console_log low_equal_console_error
      split: prod.splits sum.splits)

lemma low_equal_listObjects:
  assumes "low_equal st1 st2"
  shows "fst (listObjects bucketName st1) = fst (listObjects bucketName st2) \<and>
         low_equal (snd (listObjects bucketName st1)) (snd (listObjects bucketName st2))"
  using low_equal_s3_send [OF assms, of "ListObjectsV2Command [(''Bucket'', Str bucketName)]"]
  by (auto simp: listObjects_def Let_def low_equal_console_log low_equal_console_error
      split: prod.splits sum.splits)

lemma low_equal_downloadObject:
  assumes "low_equal st1 st2"
  shows "fst (downloadObject bucketName key st1) = fst (downloadObject bucketName key st2) \<and>
         low_equal (snd (downloadObject bucketName key st1)) (snd (downloadObject bucketName key st2))"
  using low_equal_s3_send [OF assms, of "GetObjectCommand [(''Bucket'', Str bucketName), (''Key'', Str key)]"]
  by (auto simp: downloadObject_def Let_def low_equal_console_log low_equal_console_error
      split: prod.splits sum.splits)

lemma low_equal_deleteObject:
  assumes "low_equal st1 st2"
  shows "fst (deleteObject bucketName key st1) = fst (deleteObject bucketName key st2) \<and>
         low_equal (snd (deleteObject bucketName key st1)) (snd (deleteObject bucketName key st2))"
  using low_equal_s3_send [OF assms, of "DeleteObjectCommand [(''Bucket'', Str bucketName), (''Key'', Str key)]"]
  by (auto simp: deleteObject_def Let_def low_equal_console_log low_equal_console_error
      split: prod.splits sum.splits)

lemma low_equal_makeObjectPublic:
  assumes "low_equal st1 st2"
  shows "fst (makeObjectPublic bucketName key st1) = fst (makeObjectPublic bucketName key st2) \<and>
         low_equal (snd (makeObjectPublic bucketName key st1)) (snd (makeObjectPublic bucketName key st2))"
  using low_equal_s3_send [OF assms, of "PutObjectAclCommand
      [(''Bucket'', Str bucketName), (''Key'', Str key), (''ACL'', Str ''public-read'')]"]
  by (auto simp: makeObjectPublic_def Let_def low_equal_console_log low_equal_console_error
      split: prod.splits sum.splits)

lemma low_equal_getPublicUrl:
  assumes "low_equal st1 st2"
  shows "fst (getPublicUrl bucketName key st1) = fst (getPublicUrl bucketName key st2) \<and>
         low_equal (snd (getPublicUrl bucketName key st1)) (snd (getPublicUrl bucketName key st2))"
  using assms low_equal_region [OF assms]
  by (simp add: getPublicUrl_def Let_def low_equal_console_log)

text \<open>
  C8: two runs of a method from states that agree on everything but the credentials held
  by the client (the same answers of \<open>send\<close>, the same region property, world and console)
  leave the same console, and states that agree in the same way again, so that the same
  holds after any sequence of calls. No method reads the secret.
\<close>

theorem secret_never_reaches_console:
  assumes "low_equal st1 st2"
  shows
  "console (snd (createBucket bucketName st1)) = console (snd (createBucket bucketName st2)) \<and>
   low_equal (snd (createBucket bucketName st1)) (snd (createBucket bucketName st2)) \<and>
   console (snd (listBuckets st1)) = console (snd (listBuckets st2)) \<and>
   low_equal (snd (listBuckets st1)) (snd (listBuckets st2)) \<and>
   console (snd (deleteBucket bucketName st1)) = console (snd (deleteBucket bucketName st2)) \<and>
   low_equal (snd (deleteBucket bucketName st1)) (snd (deleteBucket bucketName st2)) \<and>
   console (snd (uploadObject bucketName key body st1)) = console (snd (uploadObject bucketName key body st2)) \<and>
   low_equal (snd (uploadObject bucketName key body st1)) (snd (uploadObject bucketName key body st2)) \<and>
   console (snd (getPublicUrl bucketName key st1)) = console (snd (getPublicUrl bucketName key st2)) \<and>
   low_equal (snd (getPublicUrl bucketName key st1)) (snd (getPublicUrl bucketName key st2)) \<and>
   console (snd (listObjects bucketName st1)) = console (snd (listObjects bucketName st2)) \<and>
   low_equal (snd (listObjects bucketName st1)) (snd (listObjects bucketName st2)) \<and>
   console (snd (downloadObject bucketName key st1)) = console (snd (downloadObject bucketName key st2)) \<and>
   low_equal (snd (downloadObject bucketName key st1)) (snd (downloadObject bucketName key st2)) \<and>
   console (snd (deleteObject bucketName key st1)) = console (snd (deleteObject bucketName key st2)) \<and>
   low_equal (snd (deleteObject bucketName key st1)) (snd (deleteObject bucketName key st2)) \<and>
   console (snd (makeObjectPublic bucketName key st1)) = console (snd (makeObjectPublic bucketName key st2)) \<and>
   low_equal (snd (makeObjectPublic bucketName key st1)) (snd (makeObjectPublic bucketName key st2))"
  using low_equal_createBucket [OF assms] low_equal_listBuckets [OF assms]
    low_equal_deleteBucket [OF assms] low_equal_uploadObject [OF assms]
    low_equal_getPublicUrl [OF assms] low_equal_listObjects [OF assms]
    low_equal_downloadObject [OF assms] low_equal_deleteObject [OF assms]
    low_equal_makeObjectPublic [OF assms]
  by (simp add: low_equal_console)

text \<open>On two facades constructed with different secrets over the store in memory.\<close>

theorem secret_never_reaches_console_witness:
  "secretAccessKey (credentials (config (s3 (facade empty_store)))) = ''secret'' \<and>
   secretAccessKey (credentials (config (s3 (facade other_secret)))) = ''another secret'' \<and>
   low_equal empty_store other_secret \<and>
   console (snd (createBucket ''photos'' empty_store)) = console (snd (createBucket ''photos'' other_secret)) \<and>
   console (snd (listBuckets empty_store)) = console (snd (listBuckets other_secret)) \<and>
   console (snd (deleteBucket ''photos'' empty_store)) = console (snd (deleteBucket ''photos'' other_secret)) \<and>
   console (snd (uploadObject ''photos'' ''cat.png'' (Bytes ''meow'') empty_store)) = console (snd (uploadObject ''photos'' ''cat.png'' (Bytes ''meow'') other_secret)) \<and>
   console (snd (getPublicUrl ''photos'' ''cat.png'' empty_store)) = console (snd (getPublicUrl ''photos'' ''cat.png'' other_secret)) \<and>
   console (snd (listObjects ''photos'' empty_store)) = console (snd (listObjects ''photos'' other_secret)) \<and>
   console (snd (downloadObject ''photos'' ''cat.png'' empty_store)) = console (snd (downloadObject ''photos'' ''cat.png'' other_secret)) \<and>
   console (snd (deleteObject ''photos'' ''cat.png'' empty_store)) = console (snd (deleteObject ''photos'' ''cat.png'' other_secret)) \<and>
   console (snd (makeObjectPublic ''photos'' ''cat.png'' empty_store)) = console (snd (makeObjectPublic ''photos'' ''cat.png'' other_secret))"
proof -
  have le: "low_equal empty_store other_secret"
    by (simp add: low_equal_def empty_store_def other_secret_def initial_def new_S3Util_def
        plain_client_def)
  have secrets:
    "secretAccessKey (credentials (config (s3 (facade empty_store)))) = ''secret''"
    "secretAccessKey (credentials (config (s3 (facade other_secret)))) = ''another secret''"
    by (simp_all add: empty_store_def other_secret_def initial_def new_S3Util_def plain_client_def)
  from secret_never_reaches_console
      [OF le, of "''photos''" "''cat.png''" "Bytes ''meow''"] le secrets
  show ?thesis
    by simp
qed

subsection \<open>The public URL\<close>

text \<open>
  C4: \<open>getPublicUrl\<close> always resolves; it sends no command and leaves the world behind
  the client as it is (its one effect is a \<open>console.log\<close> line); its result is the same
  in any two states whose clients hold the same region property, whatever the world, the
  console and the credentials are; and a second call returns what the first returned.
\<close>

theorem getPublicUrl_pure:
  "(\<exists>url. fst (getPublicUrl bucketName key st) = Inr url) \<and>
   remote (snd (getPublicUrl bucketName key st)) = remote st \<and>
   requests (snd (getPublicUrl bucketName key st)) = requests st \<and>
   (region (config (s3 (facade st))) = region (config (s3 (facade st'))) \<longrightarrow>
      fst (getPublicUrl bucketName key st) = fst (getPublicUrl bucketName key st')) \<and>
   fst (getPublicUrl bucketName key (snd (getPublicUrl bucketName key st))) =
     fst (getPublicUrl bucketName key st)"
  by (simp add: getPublicUrl_def console_log_def Let_def)

text \<open>
  On two facades with the same region: one fresh, one with another secret and after an
  upload.
\<close>

theorem getPublicUrl_pure_witness:
  "region (config (s3 (facade empty_store))) =
     region (config (s3 (facade (snd (uploadObject ''photos'' ''cat.png'' (Bytes ''meow'') other_secret))))) \<and>
   remote empty_store \<noteq> remote (snd (uploadObject ''photos'' ''cat.png'' (Bytes ''meow'') other_secret)) \<and>
   fst (getPublicUrl ''photos'' ''cat.png'' empty_store) =
     fst (getPublicUrl ''photos'' ''cat.png''
            (snd (uploadObject ''photos'' ''cat.png'' (Bytes ''meow'') other_secret)))"
  using getPublicUrl_pure
    [where st = empty_store and bucketName = "''photos''" and key = "''cat.png''"
       and st' = "snd (uploadObject ''photos'' ''cat.png'' (Bytes ''meow'') other_secret)"]
  by (simp add: uploadObject_def effect_defs empty_store_def other_secret_def initial_def
      new_S3Util_def plain_client_def)

text \<open>
  C10: for every two strings the result is the template with the bucket name and the key
  put in as they are, nothing checked and nothing encoded: empty strings give a URL with
  an empty host label and an empty path, and a space, \<open>/\<close>, \<open>?\<close>, \<open>=\<close> or \<open>#\<close> stays what
  it is.
\<close>

theorem getPublicUrl_verbatim:
  "fst (getPublicUrl bucketName key st) =
     Inr (''https://'' @ bucketName @ ''.s3.'' @ ToString (region (config (s3 (facade st))))
            @ ''.amazonaws.com/'' @ key) \<and>
   fst (getPublicUrl [] [] st) =
     Inr (''https://.s3.'' @ ToString (region (config (s3 (facade st)))) @ ''.amazonaws.com/'') \<and>
   fst (getPublicUrl ''my bucket'' ''a b/c?d=e#f'' st) =
     Inr (''https://my bucket.s3.'' @ ToString (region (config (s3 (facade st))))
            @ ''.amazonaws.com/a b/c?d=e#f'')"
  by (simp add: getPublicUrl_def Let_def)

text \<open>
  The region in the URL is what the client holds in \<open>config.region\<close>, converted to a
  string. Where the client holds the region as a string, the URL has the shape
  \<open>https://{bucket}.s3.{region}.amazonaws.com/{key}\<close>.
\<close>

lemma getPublicUrl_string_region:
  assumes "region (config (s3 (facade st))) = StringValue r"
  shows "fst (getPublicUrl bucketName key st) =
           Inr (''https://'' @ bucketName @ ''.s3.'' @ r @ ''.amazonaws.com/'' @ key)"
  using assms by (simp add: getPublicUrl_def Let_def)

text \<open>
  C1: the URL is to carry the region the facade was constructed with. Where the client
  holds the region as a provider function, the template literal converts the function,
  and the URL of the usage example carries the function's text in place of \<open>us-west-2\<close>.
\<close>

theorem getPublicUrl_provider_region:
  "fst (getPublicUrl ''my-bucket'' ''path/file.txt'' v3_facade) =
     Inr ''https://my-bucket.s3.async () => region.amazonaws.com/path/file.txt'' \<and>
   fst (getPublicUrl ''my-bucket'' ''path/file.txt'' v3_facade) \<noteq>
     Inr ''https://my-bucket.s3.us-west-2.amazonaws.com/path/file.txt''"
  by (simp add: getPublicUrl_def Let_def v3_facade_def initial_def new_S3Util_def
      provider_client_def)

end
